theory Spec2Isabelle
  imports Complex_Main "HOL-Library.Word" "HOL-Library.Monad_Syntax"
begin

section \<open>Scalars and defaults\<close>

text \<open>
  The C++ \<open>int\<close> is a 32-bit word read in two's complement, \<open>UChar_t\<close> an 8-bit
  word. A \<open>double\<close> is modelled by a \<open>real\<close>: comparisons are exact and the
  arithmetic on doubles is the exact arithmetic, so the rounding and the overflow
  of operations on doubles are outside the model. A \<open>float\<close> is a \<open>real\<close> that
  has a binary32 representation; the narrowing cast \<open>(float)\<close> rounds to the
  nearest such value. A result of type \<open>real option\<close> is \<open>None\<close> when the
  program's value is not a finite number: a division by zero, or a cast that
  overflows the range of \<open>float\<close>.

  The constants \<open>default_float\<close>, \<open>default_int\<close>, \<open>default_pdgid\<close> and
  \<open>default_uchar\<close> come from \<open>defaults.hxx\<close>; every function that uses one takes
  it as its first argument.
\<close>

type_synonym cint = "32 word"
type_synonym uchar = "8 word"

definition pow2 :: "int \<Rightarrow> real" where
  "pow2 k = (if 0 \<le> k then 2 ^ nat k else 1 / 2 ^ nat (- k))"

text \<open>Rounding to the nearest integer, a tie to the even one.\<close>

definition round_half_even :: "real \<Rightarrow> int" where
  "round_half_even y =
     (let f = \<lfloor>y\<rfloor>; d = y - of_int f
      in if d < 1 / 2 then f else if 1 / 2 < d then f + 1
         else if even f then f else f + 1)"

text \<open>The binary exponent of a value, no less than that of the subnormal range.\<close>

definition float_exponent :: "real \<Rightarrow> int" where
  "float_exponent x = max (- 126) \<lfloor>log 2 \<bar>x\<bar>\<rfloor>"

text \<open>
  The cast \<open>(float)\<close> of a double: round to nearest, ties to even, on a
  significand of 24 bits; a rounded magnitude of \<open>2 ^ 128\<close> or more is infinite.
\<close>

definition to_float :: "real \<Rightarrow> real option" where
  "to_float x =
     (if x = 0 then Some 0
      else (let ulp = pow2 (float_exponent x - 23);
                r = of_int (round_half_even (x / ulp)) * ulp
            in if \<bar>r\<bar> < 2 ^ 128 then Some r else None))"

section \<open>ROOT::RVec element access\<close>

datatype error = OutOfRange

text \<open>
  Both accessors take a \<open>size_type\<close> (an unsigned 64-bit \<open>size_t\<close>) position; an
  \<open>int\<close> argument is converted on the call, so a negative index becomes a position
  of at least \<open>2 ^ 64 - 2 ^ 31\<close>.
\<close>

definition size_t_of_int :: "cint \<Rightarrow> nat" where
  "size_t_of_int i = nat (sint i mod 2 ^ 64)"

text \<open>No contiguous array is longer than \<open>PTRDIFF_MAX\<close> elements.\<close>

definition max_size :: nat where
  "max_size = 2 ^ 63 - 1"

text \<open>\<open>RVec::at(pos)\<close>: throws \<open>std::out_of_range\<close> when \<open>pos >= size()\<close>.\<close>

definition rvec_at :: "'a list \<Rightarrow> cint \<Rightarrow> error + 'a" where
  "rvec_at v pos =
     (let p = size_t_of_int pos
      in if p \<ge> length v then Inl OutOfRange else Inr (v ! p))"

text \<open>\<open>RVec::at(pos, fallback)\<close>: no exception, the fallback when \<open>pos >= size()\<close>.\<close>

definition rvec_at_or :: "'a list \<Rightarrow> cint \<Rightarrow> 'a \<Rightarrow> 'a" where
  "rvec_at_or v pos fallback =
     (let p = size_t_of_int pos
      in if p \<ge> length v then fallback else v ! p)"


section \<open>Indexed attributes\<close>

definition dxy :: "real \<Rightarrow> cint \<Rightarrow> cint list \<Rightarrow> real list \<Rightarrow> error + real" where
  "dxy default_float position pair dxycolumn =
     (case rvec_at pair position of
        Inl e \<Rightarrow> Inl e
      | Inr index \<Rightarrow> Inr (rvec_at_or dxycolumn index default_float))"

definition dz :: "real \<Rightarrow> cint \<Rightarrow> cint list \<Rightarrow> real list \<Rightarrow> error + real" where
  "dz default_float position pair dzcolumn =
     (case rvec_at pair position of
        Inl e \<Rightarrow> Inl e
      | Inr index \<Rightarrow> Inr (rvec_at_or dzcolumn index default_float))"

definition charge :: "cint \<Rightarrow> cint \<Rightarrow> cint list \<Rightarrow> cint list \<Rightarrow> error + cint" where
  "charge default_int position pair chargecolumn =
     (case rvec_at pair position of
        Inl e \<Rightarrow> Inl e
      | Inr index \<Rightarrow> Inr (rvec_at_or chargecolumn index default_int))"

definition isolation :: "real \<Rightarrow> cint \<Rightarrow> cint list \<Rightarrow> real list \<Rightarrow> error + real" where
  "isolation default_float position pair isolationcolumn =
     (case rvec_at pair position of
        Inl e \<Rightarrow> Inl e
      | Inr index \<Rightarrow> Inr (rvec_at_or isolationcolumn index default_float))"

definition pdgid :: "cint \<Rightarrow> cint \<Rightarrow> cint list \<Rightarrow> cint list \<Rightarrow> error + cint" where
  "pdgid default_pdgid position pair pdgidcolumn =
     (case rvec_at pair position of
        Inl e \<Rightarrow> Inl e
      | Inr index \<Rightarrow> Inr (rvec_at_or pdgidcolumn index default_pdgid))"

definition decaymode :: "cint \<Rightarrow> cint \<Rightarrow> cint list \<Rightarrow> cint list \<Rightarrow> error + cint" where
  "decaymode default_int position pair decaymodecolumn =
     (case rvec_at pair position of
        Inl e \<Rightarrow> Inl e
      | Inr index \<Rightarrow> Inr (rvec_at_or decaymodecolumn index default_int))"

definition genmatch :: "uchar \<Rightarrow> cint \<Rightarrow> cint list \<Rightarrow> uchar list \<Rightarrow> error + uchar" where
  "genmatch default_uchar position pair genmatchcolumn =
     (case rvec_at pair position of
        Inl e \<Rightarrow> Inl e
      | Inr index \<Rightarrow> Inr (rvec_at_or genmatchcolumn index default_uchar))"

section \<open>Association chains\<close>

definition matching_jet_pt ::
  "real \<Rightarrow> cint \<Rightarrow> cint list \<Rightarrow> cint list \<Rightarrow> real list \<Rightarrow> error + real" where
  "matching_jet_pt default_float position pair taujets jetpt =
     (case rvec_at pair position of
        Inl e \<Rightarrow> Inl e
      | Inr tauindex \<Rightarrow>
          (let jetindex = rvec_at_or taujets tauindex (- 1)
           in Inr (rvec_at_or jetpt jetindex default_float)))"

definition matching_genjet_pt ::
  "real \<Rightarrow> cint \<Rightarrow> cint list \<Rightarrow> cint list \<Rightarrow> cint list \<Rightarrow> real list \<Rightarrow> error + real" where
  "matching_genjet_pt default_float position pair taujets genjets genjetpt =
     (case rvec_at pair position of
        Inl e \<Rightarrow> Inl e
      | Inr tauindex \<Rightarrow>
          (let jetindex = rvec_at_or taujets tauindex (- 1);
               genjetindex = rvec_at_or genjets jetindex (- 1)
           in Inr (rvec_at_or genjetpt genjetindex default_float)))"

text \<open>
  The lookup as the specification words it: the element at the stored index when
  that index lies in \<open>0 \<le> idx < len\<close>, the default otherwise.
\<close>

definition in_range :: "cint \<Rightarrow> 'a list \<Rightarrow> bool" where
  "in_range idx attrs \<longleftrightarrow> 0 \<le> sint idx \<and> sint idx < int (length attrs)"

definition lookup_spec :: "'a \<Rightarrow> cint list \<Rightarrow> nat \<Rightarrow> 'a list \<Rightarrow> 'a" where
  "lookup_spec dflt pair position attrs =
     (if in_range (pair ! position) attrs
      then attrs ! nat (sint (pair ! position)) else dflt)"

text \<open>
  A hop of an association chain fails when the index it is given is the marker
  \<open>-1\<close> or otherwise outside the array it addresses.
\<close>

definition no_association :: "cint \<Rightarrow> 'a list \<Rightarrow> bool" where
  "no_association idx target \<longleftrightarrow> idx = - 1 \<or> \<not> in_range idx target"

section \<open>Four-vectors and three-vectors of the vector library\<close>

text \<open>
  \<open>ROOT::Math::PtEtaPhiMVector\<close> stores the four coordinates it is named after;
  \<open>pt()\<close>, \<open>eta()\<close>, \<open>phi()\<close> and \<open>mass()\<close> read them back.
\<close>

record PtEtaPhiMVector =
  fPt :: real
  fEta :: real
  fPhi :: real
  fM :: real

text \<open>The Cartesian three-vector returned by \<open>Vect()\<close>.\<close>

record XYZVector =
  fX :: real
  fY :: real
  fZ :: real

text \<open>The Cartesian four-vector through which two four-vectors are added.\<close>

record PxPyPzEVector =
  cX :: real
  cY :: real
  cZ :: real
  cT :: real

definition p4_Px :: "PtEtaPhiMVector \<Rightarrow> real" where
  "p4_Px v = fPt v * cos (fPhi v)"

definition p4_Py :: "PtEtaPhiMVector \<Rightarrow> real" where
  "p4_Py v = fPt v * sin (fPhi v)"

text \<open>
  The library's largest pseudorapidity; a vector without transverse part keeps
  its longitudinal component as an offset from it.
\<close>

definition etaMax :: real where
  "etaMax = 22756"

definition p4_Pz :: "PtEtaPhiMVector \<Rightarrow> real" where
  "p4_Pz v =
     (if fPt v > 0 then fPt v * sinh (fEta v)
      else if fEta v = 0 then 0
      else if fEta v > 0 then fEta v - etaMax
      else fEta v + etaMax)"

definition p4_P :: "PtEtaPhiMVector \<Rightarrow> real" where
  "p4_P v =
     (if fPt v > 0 then fPt v * cosh (fEta v)
      else if fEta v > etaMax then fEta v - etaMax
      else if fEta v < - etaMax then - fEta v - etaMax
      else 0)"

definition p4_M2 :: "PtEtaPhiMVector \<Rightarrow> real" where
  "p4_M2 v = (if fM v \<ge> 0 then fM v * fM v else - fM v * fM v)"

definition p4_E2 :: "PtEtaPhiMVector \<Rightarrow> real" where
  "p4_E2 v = (let e2 = p4_P v * p4_P v + p4_M2 v in if e2 > 0 then e2 else 0)"

definition p4_E :: "PtEtaPhiMVector \<Rightarrow> real" where
  "p4_E v = sqrt (p4_E2 v)"

text \<open>The C library's \<open>atan2\<close>.\<close>

definition atan2 :: "real \<Rightarrow> real \<Rightarrow> real" where
  "atan2 y x =
     (if x > 0 then arctan (y / x)
      else if x < 0 then (if y \<ge> 0 then arctan (y / x) + pi else arctan (y / x) - pi)
      else if y > 0 then pi / 2
      else if y < 0 then - pi / 2
      else 0)"

text \<open>
  Pseudorapidity from the transverse and the longitudinal component, with the
  library's large-ratio expansion (beyond \<open>epsilon ^ (-1/4) = 2 ^ 13\<close>) and its
  convention for a vanishing transverse component.
\<close>

definition Eta_FromRhoZ :: "real \<Rightarrow> real \<Rightarrow> real" where
  "Eta_FromRhoZ rho z =
     (if rho > 0 then
        (let z_scaled = z / rho
         in if \<bar>z_scaled\<bar> < 8192 then ln (z_scaled + sqrt (z_scaled * z_scaled + 1))
            else if z > 0 then ln (2 * z_scaled + 0.5 / z_scaled)
            else - ln (- 2 * z_scaled))
      else if z = 0 then 0
      else if z > 0 then z + etaMax
      else z - etaMax)"

definition xyzt_Pt :: "PxPyPzEVector \<Rightarrow> real" where
  "xyzt_Pt c = sqrt (cX c * cX c + cY c * cY c)"

definition xyzt_Eta :: "PxPyPzEVector \<Rightarrow> real" where
  "xyzt_Eta c = Eta_FromRhoZ (xyzt_Pt c) (cZ c)"

definition xyzt_Phi :: "PxPyPzEVector \<Rightarrow> real" where
  "xyzt_Phi c = (if cX c = 0 \<and> cY c = 0 then 0 else atan2 (cY c) (cX c))"

definition xyzt_M :: "PxPyPzEVector \<Rightarrow> real" where
  "xyzt_M c =
     (let mm = cT c * cT c - cX c * cX c - cY c * cY c - cZ c * cZ c
      in if mm \<ge> 0 then sqrt mm else - sqrt (- mm))"

text \<open>\<open>SetPxPyPzE\<close>: the four stored coordinates, recomputed from Cartesian ones.\<close>

definition SetPxPyPzE :: "PxPyPzEVector \<Rightarrow> PtEtaPhiMVector" where
  "SetPxPyPzE c =
     \<lparr>fPt = xyzt_Pt c, fEta = xyzt_Eta c, fPhi = xyzt_Phi c, fM = xyzt_M c\<rparr>"

text \<open>\<open>operator+\<close> on four-vectors: the Cartesian components are added.\<close>

definition p4_add :: "PtEtaPhiMVector \<Rightarrow> PtEtaPhiMVector \<Rightarrow> PtEtaPhiMVector" where
  "p4_add v q =
     SetPxPyPzE \<lparr>cX = p4_Px v + p4_Px q, cY = p4_Py v + p4_Py q,
                 cZ = p4_Pz v + p4_Pz q, cT = p4_E v + p4_E q\<rparr>"

definition Vect :: "PtEtaPhiMVector \<Rightarrow> XYZVector" where
  "Vect v = \<lparr>fX = p4_Px v, fY = p4_Py v, fZ = p4_Pz v\<rparr>"

definition SetZ :: "XYZVector \<Rightarrow> real \<Rightarrow> XYZVector" where
  "SetZ v z = v\<lparr>fZ := z\<rparr>"

definition R :: "XYZVector \<Rightarrow> real" where
  "R v = sqrt (fX v * fX v + fY v * fY v + fZ v * fZ v)"

text \<open>
  \<open>operator/\<close> of a three-vector by a scalar. A division by zero, which in the
  program gives non-finite components, is \<open>None\<close>.
\<close>

definition vec_div :: "XYZVector \<Rightarrow> real \<Rightarrow> XYZVector option" where
  "vec_div v a =
     (if a = 0 then None
      else Some \<lparr>fX = fX v / a, fY = fY v / a, fZ = fZ v / a\<rparr>)"

text \<open>\<open>Unit()\<close>: \<open>tot == 0 ? *this : *this / tot\<close> with \<open>tot = R()\<close>.\<close>

definition Unit :: "XYZVector \<Rightarrow> XYZVector option" where
  "Unit v = (let tot = R v in if tot = 0 then Some v else vec_div v tot)"

definition vec_add :: "XYZVector \<Rightarrow> XYZVector \<Rightarrow> XYZVector" where
  "vec_add v w = \<lparr>fX = fX v + fX w, fY = fY v + fY w, fZ = fZ v + fZ w\<rparr>"

definition Dot :: "XYZVector \<Rightarrow> XYZVector \<Rightarrow> real" where
  "Dot v w = fX v * fX w + fY v * fY w + fZ v * fZ w"

section \<open>Four-vector kinematics\<close>

definition pt :: "PtEtaPhiMVector \<Rightarrow> real option" where
  "pt p4 = to_float (fPt p4)"

definition eta :: "PtEtaPhiMVector \<Rightarrow> real option" where
  "eta p4 = to_float (fEta p4)"

definition phi :: "real \<Rightarrow> PtEtaPhiMVector \<Rightarrow> real option" where
  "phi default_float p4 =
     (if fPt p4 < 0 then Some default_float else to_float (fPhi p4))"

definition mass :: "real \<Rightarrow> PtEtaPhiMVector \<Rightarrow> real option" where
  "mass default_float p4 =
     (if fPt p4 < 0 then Some default_float else to_float (fM p4))"

section \<open>Composite kinematics\<close>

definition m_vis :: "real \<Rightarrow> PtEtaPhiMVector \<Rightarrow> PtEtaPhiMVector \<Rightarrow> real option" where
  "m_vis default_float p4_1 p4_2 =
     (if fPt p4_1 < 0 \<or> fPt p4_2 < 0 then Some default_float
      else (let dileptonsystem = p4_add p4_1 p4_2
            in to_float (fM dileptonsystem)))"

text \<open>
  \<open>float alpha = 0.85\<close> holds the float nearest to \<open>0.85\<close>; the product
  \<open>alpha * pzetaVis\<close> and the difference are taken on doubles.
\<close>

definition pzetamissvis ::
  "PtEtaPhiMVector \<Rightarrow> PtEtaPhiMVector \<Rightarrow> PtEtaPhiMVector \<Rightarrow> real option" where
  "pzetamissvis particle_1_p4 particle_2_p4 met =
     do {
       alpha \<leftarrow> to_float 0.85;
       let met_3dvec = SetZ (Vect met) 0;
       p1_norm \<leftarrow> Unit (Vect particle_1_p4);
       p2_norm \<leftarrow> Unit (Vect particle_2_p4);
       p1_norm \<leftarrow> Unit (SetZ p1_norm 0);
       p2_norm \<leftarrow> Unit (SetZ p2_norm 0);
       zeta \<leftarrow> Unit (vec_add p1_norm p2_norm);
       let dileptonsystem = SetZ (vec_add (Vect particle_1_p4) (Vect particle_2_p4)) 0;
       let pzetaVis = Dot dileptonsystem zeta;
       Some (Dot met_3dvec zeta - alpha * pzetaVis)
     }"

text \<open>
  Modelled from the spec: \<open>vectoroperations::calculateMT\<close>, declared in
  \<open>vectoroperations.hxx\<close>, which is not among the sources. The specification
  gives the transverse mass of two four-vectors as the default if either is
  invalid, and otherwise \<open>sqrt (2 * pt_a * pt_b * (1 - cos (phi_a - phi_b)))\<close>;
  the result is a float.
\<close>

definition calculateMT ::
  "real \<Rightarrow> PtEtaPhiMVector \<Rightarrow> PtEtaPhiMVector \<Rightarrow> real option" where
  "calculateMT default_float particle met =
     (if fPt particle < 0 \<or> fPt met < 0 then Some default_float
      else to_float (sqrt (2 * fPt particle * fPt met
                             * (1 - cos (fPhi particle - fPhi met)))))"

definition mTdileptonMET ::
  "real \<Rightarrow> PtEtaPhiMVector \<Rightarrow> PtEtaPhiMVector \<Rightarrow> PtEtaPhiMVector \<Rightarrow> real option" where
  "mTdileptonMET default_float particle_1_p4 particle_2_p4 met =
     (let dileptonsystem = p4_add particle_1_p4 particle_2_p4
      in calculateMT default_float dileptonsystem met)"

definition mT :: "real \<Rightarrow> PtEtaPhiMVector \<Rightarrow> PtEtaPhiMVector \<Rightarrow> real option" where
  "mT default_float particle_p4 met = calculateMT default_float particle_p4 met"

section \<open>The bisector construction as the specification words it\<close>

text \<open>
  Normalising scales a vector to length one; the zero vector has no direction and
  is left as it is.
\<close>

definition unit_vector :: "XYZVector \<Rightarrow> XYZVector" where
  "unit_vector v =
     (if R v = 0 then v
      else \<lparr>fX = fX v / R v, fY = fY v / R v, fZ = fZ v / R v\<rparr>)"

definition zero_z :: "XYZVector \<Rightarrow> XYZVector" where
  "zero_z v = \<lparr>fX = fX v, fY = fY v, fZ = 0\<rparr>"

definition transverse_unit :: "PtEtaPhiMVector \<Rightarrow> XYZVector" where
  "transverse_unit v = unit_vector (zero_z (unit_vector (Vect v)))"

definition zeta_hat :: "PtEtaPhiMVector \<Rightarrow> PtEtaPhiMVector \<Rightarrow> XYZVector" where
  "zeta_hat v1 v2 = unit_vector (vec_add (transverse_unit v1) (transverse_unit v2))"

definition pZetaMiss ::
  "PtEtaPhiMVector \<Rightarrow> PtEtaPhiMVector \<Rightarrow> PtEtaPhiMVector \<Rightarrow> real" where
  "pZetaMiss v1 v2 met = Dot (zero_z (Vect met)) (zeta_hat v1 v2)"

definition pZetaVis :: "PtEtaPhiMVector \<Rightarrow> PtEtaPhiMVector \<Rightarrow> real" where
  "pZetaVis v1 v2 = Dot (zero_z (vec_add (Vect v1) (Vect v2))) (zeta_hat v1 v2)"

text \<open>The float nearest to \<open>0.85\<close>.\<close>

definition alpha_float :: real where
  "alpha_float = 14260634 / 16777216"


text \<open>The range the vector library keeps a stored azimuthal angle in.\<close>

definition phi_restricted :: "PtEtaPhiMVector \<Rightarrow> bool" where
  "phi_restricted v \<longleftrightarrow> - pi < fPhi v \<and> fPhi v \<le> pi"

section \<open>Element access: basic facts\<close>

lemma size_t_of_int_nonneg:
  "0 \<le> sint i \<Longrightarrow> size_t_of_int i = nat (sint i)"
proof -
  assume h: "0 \<le> sint i"
  have "sint i < 2 ^ 31" using sint_lt [of i] by simp
  then have "sint i < 2 ^ 64" by simp
  with h show ?thesis by (simp add: size_t_of_int_def)
qed

lemma size_t_of_int_neg:
  "sint i < 0 \<Longrightarrow> max_size < size_t_of_int i"
proof -
  assume h: "sint i < 0"
  have lo: "- (2 ^ 31) \<le> sint i" using sint_ge [of i] by simp
  have "(sint i + 2 ^ 64) mod 2 ^ 64 = sint i + 2 ^ 64"
    using h lo by (intro mod_pos_pos_trivial) simp_all
  then have "sint i mod 2 ^ 64 = sint i + 2 ^ 64"
    by (simp only: mod_add_self2)
  then show ?thesis using lo by (simp add: size_t_of_int_def max_size_def)
qed

lemma rvec_at_or_spec:
  "length v \<le> max_size \<Longrightarrow>
   rvec_at_or v idx d = (if in_range idx v then v ! nat (sint idx) else d)"
proof (cases "0 \<le> sint idx")
  case True
  assume "length v \<le> max_size"
  from True show ?thesis
    by (auto simp: rvec_at_or_def in_range_def size_t_of_int_nonneg Let_def)
next
  case False
  assume len: "length v \<le> max_size"
  from False have "max_size < size_t_of_int idx"
    by (simp add: size_t_of_int_neg)
  with len have "length v \<le> size_t_of_int idx" by simp
  with False show ?thesis
    by (simp add: rvec_at_or_def in_range_def Let_def)
qed

lemma size_t_of_int_0: "size_t_of_int 0 = 0"
  by (simp add: size_t_of_int_def)

lemma size_t_of_int_1: "size_t_of_int 1 = 1"
  by (simp add: size_t_of_int_def)

lemma rvec_at_pair:
  assumes "position = 0 \<or> position = 1" "unat position < length p"
  shows "rvec_at p position = Inr (p ! unat position)"
proof -
  from assms(1) have "size_t_of_int position = unat position"
    by (auto simp: size_t_of_int_0 size_t_of_int_1)
  with assms(2) show ?thesis by (simp add: rvec_at_def Let_def)
qed

lemma lookup_core:
  assumes "position = 0 \<or> position = 1" "unat position < length p" "length a \<le> max_size"
  shows "(case rvec_at p position of Inl e \<Rightarrow> Inl e
          | Inr index \<Rightarrow> Inr (rvec_at_or a index d))
         = Inr (lookup_spec d p (unat position) a)"
  using assms by (simp add: rvec_at_pair rvec_at_or_spec lookup_spec_def)

lemma in_range_minus1: "\<not> in_range (- 1) xs"
  by (simp add: in_range_def)

lemma no_association_iff: "no_association idx xs \<longleftrightarrow> \<not> in_range idx xs"
  by (auto simp: no_association_def in_range_minus1)

section \<open>Indexed attributes: the lookup and its default\<close>

text \<open>
  C1. For a position in \<open>{0, 1}\<close> and a pair holding at least \<open>position + 1\<close>
  entries, each indexed-attribute function returns the attribute stored at
  \<open>pair[position]\<close> when \<open>0 \<le> pair[position] < len(attrs)\<close>, and otherwise the
  default of the attribute's type: \<open>default_float\<close> for dxy, dz and isolation,
  \<open>default_int\<close> for charge and decaymode, \<open>default_pdgid\<close> for pdgid,
  \<open>default_uchar\<close> for genmatch. A negative stored index gives the default.
\<close>

theorem indexed_lookup:
  assumes "position = 0 \<or> position = 1"
    and "unat position < length p"
    and "length a \<le> max_size" and "length ai \<le> max_size" and "length au \<le> max_size"
  shows "dxy default_float position p a = Inr (lookup_spec default_float p (unat position) a)
       \<and> dz default_float position p a = Inr (lookup_spec default_float p (unat position) a)
       \<and> isolation default_float position p a = Inr (lookup_spec default_float p (unat position) a)
       \<and> charge default_int position p ai = Inr (lookup_spec default_int p (unat position) ai)
       \<and> decaymode default_int position p ai = Inr (lookup_spec default_int p (unat position) ai)
       \<and> pdgid default_pdgid position p ai = Inr (lookup_spec default_pdgid p (unat position) ai)
       \<and> genmatch default_uchar position p au = Inr (lookup_spec default_uchar p (unat position) au)"
  unfolding dxy_def dz_def isolation_def charge_def decaymode_def pdgid_def genmatch_def
  using assms by (simp add: lookup_core)

text \<open>
  The scenario of the specification: pair \<open>[2, -1]\<close> and attributes
  \<open>[0.1, 0.2, 0.3]\<close> give \<open>0.3\<close> at position 0 and the default at position 1.
\<close>

theorem indexed_lookup_witness:
  "dxy (- 10) 0 [2, - 1] [0.1, 0.2, 0.3] = Inr 0.3
   \<and> dxy (- 10) 1 [2, - 1] [0.1, 0.2, 0.3] = Inr (- 10)
   \<and> dz (- 10) 0 [2, - 1] [0.1, 0.2, 0.3] = Inr 0.3
   \<and> isolation (- 10) 1 [2, - 1] [0.1, 0.2, 0.3] = Inr (- 10)
   \<and> charge (- 10) 0 [2, - 1] [11, 13, 15] = Inr 15
   \<and> decaymode (- 10) 1 [2, - 1] [11, 13, 15] = Inr (- 10)
   \<and> pdgid (- 999) 1 [2, - 1] [11, 13, 15] = Inr (- 999)
   \<and> genmatch 0 0 [2, - 1] [1, 2, 5] = Inr 5"
  using indexed_lookup [of 0 "[2, - 1]" "[0.1, 0.2, 0.3]" "[11, 13, 15]" "[1, 2, 5]" "- 10" "- 10" "- 999" 0]
        indexed_lookup [of 1 "[2, - 1]" "[0.1, 0.2, 0.3]" "[11, 13, 15]" "[1, 2, 5]" "- 10" "- 10" "- 999" 0]
  by (simp add: lookup_spec_def in_range_def max_size_def)

text \<open>
  C10. The functions registered by dxy, dz and isolation are the same function:
  for every default, position, pair and float attribute array they return the
  same value (or raise the same error).
\<close>

theorem dxy_dz_isolation_identical:
  "dxy default_float position pair attrs = dz default_float position pair attrs
   \<and> dz default_float position pair attrs = isolation default_float position pair attrs"
  by (simp add: dxy_def dz_def isolation_def)

section \<open>Association chains: a failed hop gives the default\<close>

text \<open>
  C6. In \<open>matching_jet_pt\<close> and \<open>matching_genjet_pt\<close>, when the index handed to
  any hop is the marker \<open>-1\<close> or out of the range of the array of that hop, the
  result is the float default, whatever the arrays of the later hops hold.
\<close>

theorem chain_failure_gives_default:
  assumes "position = 0 \<or> position = 1" and "unat position < length pair"
    and "length taujets \<le> max_size" and "length genjets \<le> max_size"
    and "length jetpt \<le> max_size" and "length genjetpt \<le> max_size"
  shows "(no_association (pair ! unat position) taujets
            \<or> no_association (taujets ! nat (sint (pair ! unat position))) jetpt
          \<longrightarrow> matching_jet_pt default_float position pair taujets jetpt = Inr default_float)
       \<and> (no_association (pair ! unat position) taujets
            \<or> no_association (taujets ! nat (sint (pair ! unat position))) genjets
            \<or> no_association
                 (genjets ! nat (sint (taujets ! nat (sint (pair ! unat position))))) genjetpt
          \<longrightarrow> matching_genjet_pt default_float position pair taujets genjets genjetpt
                = Inr default_float)"
proof -
  let ?t = "pair ! unat position"
  have at: "rvec_at pair position = Inr ?t"
    using assms(1,2) by (rule rvec_at_pair)
  have m1: "\<not> in_range (- 1) jetpt" "\<not> in_range (- 1) genjets" "\<not> in_range (- 1) genjetpt"
    by (rule in_range_minus1)+
  have j: "matching_jet_pt default_float position pair taujets jetpt
           = Inr (rvec_at_or jetpt (rvec_at_or taujets ?t (- 1)) default_float)"
    by (simp add: matching_jet_pt_def at)
  have g: "matching_genjet_pt default_float position pair taujets genjets genjetpt
           = Inr (rvec_at_or genjetpt
                    (rvec_at_or genjets (rvec_at_or taujets ?t (- 1)) (- 1)) default_float)"
    by (simp add: matching_genjet_pt_def at)
  show ?thesis
    unfolding j g no_association_iff
    using assms(3-6) m1
    by (cases "in_range ?t taujets";
        cases "in_range (taujets ! nat (sint ?t)) genjets")
       (auto simp: rvec_at_or_spec)
qed

text \<open>
  The scenario of the specification: tauJetIndex \<open>[5]\<close>, genJetIndex six times
  \<open>-1\<close>, pair \<open>[0]\<close>; the chain breaks at the second hop.
\<close>

theorem chain_failure_gives_default_witness:
  "matching_genjet_pt (- 10) 0 [0] [5] [- 1, - 1, - 1, - 1, - 1, - 1] [20.5, 31] = Inr (- 10)
   \<and> matching_jet_pt (- 10) 0 [0] [5] [20.5, 31] = Inr (- 10)"
  using chain_failure_gives_default
    [of 0 "[0]" "[5]" "[- 1, - 1, - 1, - 1, - 1, - 1]" "[20.5, 31]" "[20.5, 31]" "- 10"]
  by (simp add: no_association_iff in_range_def max_size_def)

section \<open>The float cast: basic facts\<close>

lemma pow2_powr: "pow2 k = 2 powr of_int k"
  by (simp add: pow2_def powr_int)

lemma pow2_pos: "0 < pow2 k"
  by (simp add: pow2_powr)

lemma pow2_mono: "j \<le> k \<Longrightarrow> pow2 j \<le> pow2 k"
  by (simp add: pow2_powr)

lemma round_half_even_err: "\<bar>of_int (round_half_even y) - y\<bar> \<le> 1 / 2"
proof -
  have "of_int \<lfloor>y\<rfloor> \<le> y" "y < of_int \<lfloor>y\<rfloor> + 1" by linarith+
  then show ?thesis by (auto simp: round_half_even_def Let_def)
qed

lemma round_half_even_neg: "y < 0 \<Longrightarrow> round_half_even y \<le> 0"
proof -
  assume "y < 0"
  then have "\<lfloor>y\<rfloor> \<le> - 1" by (simp add: floor_le_iff)
  then show ?thesis by (auto simp: round_half_even_def Let_def)
qed

lemma float_exponent_small:
  assumes "\<bar>x\<bar> < 4" and "x \<noteq> 0"
  shows "float_exponent x \<le> 1"
proof -
  have "log 2 \<bar>x\<bar> < 2"
    using assms by (simp add: log_less_iff)
  then have "\<lfloor>log 2 \<bar>x\<bar>\<rfloor> < 2" by (simp add: floor_less_iff)
  then show ?thesis by (simp add: float_exponent_def)
qed

lemma to_float_near:
  assumes "\<bar>x\<bar> < 4"
  shows "\<exists>r. to_float x = Some r \<and> \<bar>r - x\<bar> \<le> 1 / 2 ^ 23"
proof (cases "x = 0")
  case True
  then show ?thesis by (simp add: to_float_def)
next
  case False
  let ?u = "pow2 (float_exponent x - 23)"
  let ?r = "of_int (round_half_even (x / ?u)) * ?u"
  have u: "0 < ?u" by (rule pow2_pos)
  have "?u \<le> pow2 (- 22)"
    using float_exponent_small [OF assms False] by (intro pow2_mono) simp
  then have u22: "?u \<le> 1 / 2 ^ 22" by (simp add: pow2_def)
  have "?r - x = (of_int (round_half_even (x / ?u)) - x / ?u) * ?u"
    using u by (simp add: left_diff_distrib)
  then have "\<bar>?r - x\<bar> = \<bar>of_int (round_half_even (x / ?u)) - x / ?u\<bar> * ?u"
    using u by (simp only: abs_mult)
  also have "\<dots> \<le> 1 / 2 * ?u"
    using u by (intro mult_right_mono round_half_even_err) simp
  also have "\<dots> \<le> 1 / 2 ^ 23" using u22 by simp
  finally have err: "\<bar>?r - x\<bar> \<le> 1 / 2 ^ 23" .
  then have "\<bar>?r\<bar> \<le> \<bar>x\<bar> + 1 / 2 ^ 23" by linarith
  with assms have "\<bar>?r\<bar> < 2 ^ 128" by simp
  with False err show ?thesis by (simp add: to_float_def Let_def)
qed

lemma to_float_neg:
  assumes "x < 0" and "to_float x = Some r"
  shows "r \<le> 0"
proof -
  let ?u = "pow2 (float_exponent x - 23)"
  have u: "0 < ?u" by (rule pow2_pos)
  with assms(1) have "x / ?u < 0" by (simp add: divide_neg_pos)
  then have "round_half_even (x / ?u) \<le> 0" by (rule round_half_even_neg)
  then have "of_int (round_half_even (x / ?u)) * ?u \<le> 0"
    using u by (simp add: mult_le_0_iff)
  with assms show ?thesis by (auto simp: to_float_def Let_def split: if_splits)
qed

lemma float_exponent_binade:
  assumes "pow2 e \<le> \<bar>x\<bar>" and "\<bar>x\<bar> < pow2 (e + 1)" and "- 126 \<le> e"
  shows "float_exponent x = e"
proof -
  have "0 < pow2 e" by (rule pow2_pos)
  with assms(1) have pos: "0 < \<bar>x\<bar>" by linarith
  have "of_int e \<le> log 2 \<bar>x\<bar>" using assms(1) pos by (simp add: le_log_iff pow2_powr)
  moreover have "log 2 \<bar>x\<bar> < of_int e + 1"
    using assms(2) pos by (simp add: log_less_iff pow2_powr)
  ultimately have "\<lfloor>log 2 \<bar>x\<bar>\<rfloor> = e" by (simp add: floor_eq_iff)
  with assms(3) show ?thesis by (simp add: float_exponent_def)
qed

lemma to_float_binade:
  assumes "pow2 e \<le> \<bar>x\<bar>" and "\<bar>x\<bar> < pow2 (e + 1)" and "- 126 \<le> e"
  shows "to_float x =
     (let ulp = pow2 (e - 23); r = of_int (round_half_even (x / ulp)) * ulp
      in if \<bar>r\<bar> < 2 ^ 128 then Some r else None)"
proof -
  have "0 < pow2 e" by (rule pow2_pos)
  with assms(1) have "x \<noteq> 0" by auto
  then show ?thesis by (simp add: to_float_def float_exponent_binade [OF assms])
qed

lemma to_float_1: "to_float 1 = Some 1"
  using to_float_binade [of 0 1]
  by (simp add: Let_def round_half_even_def pow2_def)

lemma to_float_4: "to_float 4 = Some 4"
  using to_float_binade [of 2 4]
  by (simp add: Let_def round_half_even_def pow2_def)

lemma to_float_10: "to_float 10 = Some 10"
  using to_float_binade [of 3 10]
  by (simp add: Let_def round_half_even_def pow2_def)

lemma to_float_minus_10: "to_float (- 10) = Some (- 10)"
  using to_float_binade [of 3 "- 10"]
  by (simp add: Let_def round_half_even_def pow2_def)

lemma to_float_085: "to_float 0.85 = Some alpha_float"
  using to_float_binade [of "- 1" "0.85"]
  by (simp add: Let_def round_half_even_def pow2_def alpha_float_def)

lemma to_float_17_20: "to_float (17 / 20) = Some alpha_float"
  using to_float_085 by simp

lemma to_float_2_24_1: "to_float 16777217 = Some 16777216"
  using to_float_binade [of 24 16777217]
  by (simp add: Let_def round_half_even_def pow2_def)

lemma to_float_near_pi: "to_float (105414357 / 33554432) = Some (13176795 / 4194304)"
  using to_float_binade [of 1 "105414357 / 33554432"]
  by (simp add: Let_def round_half_even_def pow2_def)

section \<open>Bounds on pi\<close>

lemma sum_lessThan_14:
  "(\<Sum>m<14. f m) = (f 0 + f 1 + f 2 + f 3 + f 4 + f 5 + f 6 + f 7 + f 8 + f 9 + f 10 + f 11
     + f 12 + f (13::nat) :: real)"
  by (simp add: numeral_eq_Suc)

lemma cos_coeff_vals:
  "cos_coeff 0 = 1" "cos_coeff 1 = 0" "cos_coeff 2 = - 1 / 2" "cos_coeff 3 = 0"
  "cos_coeff 4 = 1 / 24" "cos_coeff 5 = 0" "cos_coeff 6 = - 1 / 720" "cos_coeff 7 = 0"
  "cos_coeff 8 = 1 / 40320" "cos_coeff 9 = 0" "cos_coeff 10 = - 1 / 3628800" "cos_coeff 11 = 0"
  "cos_coeff 12 = 1 / 479001600" "cos_coeff 13 = 0"
  "cos_coeff 14 = - 1 / 87178291200" "cos_coeff 15 = 0"
  by (simp_all add: cos_coeff_def fact_numeral)

lemma cos_poly_14:
  "(\<Sum>m<14. cos_coeff m * (x::real) ^ m)
   = 1 - x^2 / 2 + x^4 / 24 - x^6 / 720 + x^8 / 40320 - x^10 / 3628800 + x^12 / 479001600"
  by (simp only: sum_lessThan_14 cos_coeff_vals) simp

lemma cos_poly_16:
  "(\<Sum>m<16. cos_coeff m * (x::real) ^ m)
   = 1 - x^2 / 2 + x^4 / 24 - x^6 / 720 + x^8 / 40320 - x^10 / 3628800 + x^12 / 479001600
     - x^14 / 87178291200"
proof -
  have "(\<Sum>m<16. cos_coeff m * x ^ m)
        = (\<Sum>m<14. cos_coeff m * x ^ m) + cos_coeff 14 * x ^ 14 + cos_coeff 15 * x ^ 15"
    by (simp add: numeral_eq_Suc)
  then show ?thesis by (simp only: cos_poly_14 cos_coeff_vals)
qed

lemma cos_upper_14:
  assumes "0 < (x::real)"
  shows "cos x \<le> (\<Sum>m<14. cos_coeff m * x ^ m) + x ^ 14 / 87178291200"
proof -
  obtain t where "cos x = (\<Sum>m<14. cos_coeff m * x ^ m)
      + (cos (t + 1/2 * real 14 * pi) / fact 14) * x ^ 14"
    using Maclaurin_cos_expansion2 [OF assms, of 14] by auto
  moreover have "cos (t + 1/2 * real 14 * pi) / fact 14 * x ^ 14 \<le> 1 / fact 14 * x ^ 14"
    using assms by (intro mult_right_mono divide_right_mono) simp_all
  ultimately show ?thesis by (simp add: fact_numeral)
qed

lemma cos_lower_16:
  assumes "0 < (x::real)"
  shows "(\<Sum>m<16. cos_coeff m * x ^ m) - x ^ 16 / 20922789888000 \<le> cos x"
proof -
  obtain t where "cos x = (\<Sum>m<16. cos_coeff m * x ^ m)
      + (cos (t + 1/2 * real 16 * pi) / fact 16) * x ^ 16"
    using Maclaurin_cos_expansion2 [OF assms, of 16] by auto
  moreover have "- 1 / fact 16 * x ^ 16 \<le> cos (t + 1/2 * real 16 * pi) / fact 16 * x ^ 16"
    using assms by (intro mult_right_mono divide_right_mono) simp_all
  ultimately show ?thesis by (simp add: fact_numeral)
qed

lemma pi_upper: "pi < 13176795 / 4194304"
proof -
  let ?c = "13176795 / 8388608 :: real"
  have "cos ?c \<le> (\<Sum>m<14. cos_coeff m * ?c ^ m) + ?c ^ 14 / 87178291200"
    by (rule cos_upper_14) simp
  also have "\<dots> < 0"
    unfolding cos_poly_14 by (simp add: power_divide)
  finally have neg: "cos ?c < 0" .
  have "pi / 2 < ?c"
  proof (rule ccontr)
    assume "\<not> pi / 2 < ?c"
    then have "?c \<le> pi / 2" by simp
    moreover have "- (pi / 2) \<le> ?c" using pi_gt_zero by (simp add: order_trans [of _ 0])
    ultimately have "0 \<le> cos ?c" by (rule cos_ge_zero [rotated])
    with neg show False by simp
  qed
  then show ?thesis by simp
qed

lemma pi_lower: "105414357 / 33554432 < pi"
proof -
  let ?d = "105414357 / 67108864 :: real"
  have "0 < (\<Sum>m<16. cos_coeff m * ?d ^ m) - ?d ^ 16 / 20922789888000"
    unfolding cos_poly_16 by (simp add: power_divide)
  also have "\<dots> \<le> cos ?d" by (rule cos_lower_16) simp
  finally have pos: "0 < cos ?d" .
  have "?d < pi / 2"
  proof (rule ccontr)
    assume "\<not> ?d < pi / 2"
    then have "pi / 2 \<le> ?d" by simp
    moreover have "?d \<le> pi" using pi_ge_two by simp
    moreover have "0 \<le> pi / 2" by simp
    ultimately have "cos ?d \<le> cos (pi / 2)" by (intro cos_monotone_0_pi_le)
    with pos show False by simp
  qed
  then show ?thesis by simp
qed

section \<open>Four-vector kinematics: guarded and unguarded readers\<close>

text \<open>
  C8, as stated, fails: \<open>pt\<close> does not hand the stored value through unmodified.
  The stored \<open>pt = 16777217\<close> is a double but no float, and the cast returns
  \<open>16777216\<close>.
\<close>

theorem pt_rounds_to_float:
  "pt \<lparr>fPt = 16777217, fEta = 0, fPhi = 0, fM = 0\<rparr> = Some 16777216
   \<and> pt \<lparr>fPt = 16777217, fEta = 0, fPhi = 0, fM = 0\<rparr>
       \<noteq> Some (fPt \<lparr>fPt = 16777217, fEta = 0, fPhi = 0, fM = 0\<rparr>)"
  by (simp add: pt_def to_float_2_24_1)

text \<open>
  C8, amended. \<open>pt\<close> returns the stored transverse momentum rounded to the
  nearest float, for every four-vector and with no test for \<open>pt < 0\<close>: a negative
  stored value is rounded like any other and comes out not positive, never
  replaced by a default. \<open>eta\<close> returns the stored pseudorapidity rounded to the
  nearest float, also with no test for \<open>pt < 0\<close>.
\<close>

theorem pt_eta_unguarded:
  "pt p4 = to_float (fPt p4) \<and> eta p4 = to_float (fEta p4)
   \<and> (fPt p4 < 0 \<longrightarrow> (\<forall>r. pt p4 = Some r \<longrightarrow> r \<le> 0))"
  by (auto simp: pt_def eta_def dest: to_float_neg)

theorem pt_eta_unguarded_witness:
  "pt \<lparr>fPt = - 10, fEta = 0.85, fPhi = 0, fM = 0\<rparr> = Some (- 10)
   \<and> eta \<lparr>fPt = - 10, fEta = 0.85, fPhi = 0, fM = 0\<rparr> = Some (14260634 / 16777216)"
  using pt_eta_unguarded [of "\<lparr>fPt = - 10, fEta = 0.85, fPhi = 0, fM = 0\<rparr>"]
  by (simp add: to_float_minus_10 to_float_17_20 alpha_float_def)

text \<open>
  C5, as stated, fails: the azimuthal angle \<open>105414357 / 2 ^ 25\<close> is a double
  inside \<open>(-pi, pi]\<close>, and for a valid vector that stores it \<open>phi\<close> returns the
  float \<open>13176795 / 2 ^ 22\<close>, which is greater than \<open>pi\<close>.
\<close>

theorem phi_exceeds_pi:
  "0 \<le> fPt \<lparr>fPt = 1, fEta = 0, fPhi = 105414357 / 33554432, fM = 0\<rparr>
   \<and> phi_restricted \<lparr>fPt = 1, fEta = 0, fPhi = 105414357 / 33554432, fM = 0\<rparr>
   \<and> phi (- 10) \<lparr>fPt = 1, fEta = 0, fPhi = 105414357 / 33554432, fM = 0\<rparr>
       = Some (13176795 / 4194304)
   \<and> pi < 13176795 / 4194304"
proof -
  have "- pi < 105414357 / 33554432" using pi_gt_zero by (simp add: less_trans [of _ 0])
  then show ?thesis
    using pi_lower pi_upper by (simp add: phi_def phi_restricted_def to_float_near_pi)
qed

text \<open>
  C5, amended. For a four-vector with \<open>pt < 0\<close>, \<open>phi\<close> and \<open>mass\<close> return the
  float default. For one with \<open>pt \<ge> 0\<close>, \<open>phi\<close> returns the stored azimuthal
  angle rounded to the nearest float and \<open>mass\<close> the stored mass rounded to the
  nearest float; for a stored angle in \<open>(-pi, pi]\<close> the returned float is within
  \<open>2 ^ -23\<close> of it, so it lies between \<open>-pi - 2 ^ -23\<close> and \<open>pi + 2 ^ -23\<close>.
\<close>

theorem phi_mass_guarded:
  "(fPt v < 0 \<longrightarrow>
      phi default_float v = Some default_float \<and> mass default_float v = Some default_float)
   \<and> (0 \<le> fPt v \<longrightarrow>
        phi default_float v = to_float (fPhi v)
        \<and> mass default_float v = to_float (fM v)
        \<and> (phi_restricted v \<longrightarrow>
             (\<exists>r. phi default_float v = Some r \<and> \<bar>r - fPhi v\<bar> \<le> 1 / 2 ^ 23
                  \<and> - pi - 1 / 2 ^ 23 < r \<and> r \<le> pi + 1 / 2 ^ 23)))"
proof -
  have "\<exists>r. to_float (fPhi v) = Some r \<and> \<bar>r - fPhi v\<bar> \<le> 1 / 2 ^ 23
            \<and> - pi - 1 / 2 ^ 23 < r \<and> r \<le> pi + 1 / 2 ^ 23"
    if "phi_restricted v"
  proof -
    from that have b: "- pi < fPhi v" "fPhi v \<le> pi" by (simp_all add: phi_restricted_def)
    with pi_less_4 have "\<bar>fPhi v\<bar> < 4" by linarith
    then obtain r where r: "to_float (fPhi v) = Some r" "\<bar>r - fPhi v\<bar> \<le> 1 / 2 ^ 23"
      using to_float_near by blast
    from r(2) b have "- pi - 1 / 2 ^ 23 < r" "r \<le> pi + 1 / 2 ^ 23" by linarith+
    with r show ?thesis by blast
  qed
  then show ?thesis by (simp add: phi_def mass_def not_less)
qed

theorem phi_mass_guarded_witness:
  "phi (- 10) \<lparr>fPt = - 1, fEta = 0, fPhi = 1, fM = 4\<rparr> = Some (- 10)
   \<and> mass (- 10) \<lparr>fPt = - 1, fEta = 0, fPhi = 1, fM = 4\<rparr> = Some (- 10)
   \<and> phi (- 10) \<lparr>fPt = 3, fEta = 0, fPhi = 1, fM = 4\<rparr> = Some 1
   \<and> mass (- 10) \<lparr>fPt = 3, fEta = 0, fPhi = 1, fM = 4\<rparr> = Some 4"
  using phi_mass_guarded [of "\<lparr>fPt = - 1, fEta = 0, fPhi = 1, fM = 4\<rparr>" "- 10"]
        phi_mass_guarded [of "\<lparr>fPt = 3, fEta = 0, fPhi = 1, fM = 4\<rparr>" "- 10"]
  by (simp add: to_float_1 to_float_4)



section \<open>Visible mass\<close>

lemma p4_add_commute: "p4_add v q = p4_add q v"
  by (simp add: p4_add_def add.commute)

lemma sqrt_9: "sqrt 9 = 3"
  using real_sqrt_abs [of 3] by simp

lemma sqrt_16: "sqrt 16 = 4"
  using real_sqrt_abs [of 4] by simp

lemma sqrt_25: "sqrt 25 = 5"
  using real_sqrt_abs [of 5] by simp

lemma sqrt_100: "sqrt 100 = 10"
  using real_sqrt_abs [of 10] by simp

lemma p4_add_back_to_back:
  "fM (p4_add \<lparr>fPt = 3, fEta = 0, fPhi = 0, fM = 4\<rparr> \<lparr>fPt = 3, fEta = 0, fPhi = pi, fM = 4\<rparr>) = 10"
  by (simp add: p4_add_def SetPxPyPzE_def xyzt_M_def p4_Px_def p4_Py_def p4_Pz_def
      p4_E_def p4_E2_def p4_P_def p4_M2_def Let_def sqrt_25 sqrt_100)

text \<open>
  C9. For two valid four-vectors (both with \<open>pt \<ge> 0\<close>) the visible mass does not
  depend on their order, and it is the mass of the sum of the two four-vectors,
  as a float.
\<close>

theorem m_vis_symmetric:
  assumes "0 \<le> fPt v1" and "0 \<le> fPt v2"
  shows "m_vis default_float v1 v2 = m_vis default_float v2 v1
       \<and> m_vis default_float v1 v2 = to_float (fM (p4_add v1 v2))
       \<and> m_vis default_float v2 v1 = to_float (fM (p4_add v2 v1))"
  using assms by (simp add: m_vis_def Let_def not_less p4_add_commute)

theorem m_vis_symmetric_witness:
  "m_vis (- 10) \<lparr>fPt = 3, fEta = 0, fPhi = 0, fM = 4\<rparr> \<lparr>fPt = 3, fEta = 0, fPhi = pi, fM = 4\<rparr>
     = Some 10
   \<and> m_vis (- 10) \<lparr>fPt = 3, fEta = 0, fPhi = pi, fM = 4\<rparr> \<lparr>fPt = 3, fEta = 0, fPhi = 0, fM = 4\<rparr>
     = Some 10"
  using m_vis_symmetric [of "\<lparr>fPt = 3, fEta = 0, fPhi = 0, fM = 4\<rparr>"
                            "\<lparr>fPt = 3, fEta = 0, fPhi = pi, fM = 4\<rparr>" "- 10"]
  by (auto simp: p4_add_back_to_back to_float_10)

section \<open>Transverse mass\<close>

lemma mT_invalid: "fPt particle_p4 < 0 \<or> fPt met < 0 \<Longrightarrow> mT d particle_p4 met = Some d"
  by (auto simp: mT_def calculateMT_def)

lemma p4_add_pt_nonneg: "0 \<le> fPt (p4_add v q)"
  by (simp add: p4_add_def SetPxPyPzE_def xyzt_Pt_def)

lemma p4_add_invalid_lepton:
  "p4_add \<lparr>fPt = - 1, fEta = 0, fPhi = 0, fM = 0\<rparr> \<lparr>fPt = 3, fEta = 0, fPhi = 0, fM = 0\<rparr>
   = \<lparr>fPt = 2, fEta = 0, fPhi = 0, fM = sqrt 5\<rparr>"
  by (simp add: p4_add_def SetPxPyPzE_def xyzt_Pt_def xyzt_Eta_def xyzt_Phi_def xyzt_M_def
      Eta_FromRhoZ_def atan2_def p4_Px_def p4_Py_def p4_Pz_def etaMax_def
      p4_E_def p4_E2_def p4_P_def p4_M2_def Let_def sqrt_9)

text \<open>
  C2. \<open>mTdileptonMET\<close> adds the two leptons before anything looks at their
  \<open>pt\<close>, and the sum of two four-vectors has a \<open>pt\<close> that is not negative. With
  a first lepton of \<open>pt = -1\<close> and a default of \<open>-10\<close> the result is the
  transverse mass \<open>4\<close> of the sum and the missing momentum, not the default.
\<close>

theorem mTdileptonMET_invalid_lepton_computed:
  "fPt \<lparr>fPt = - 1, fEta = 0, fPhi = 0, fM = 0\<rparr> < 0
   \<and> mTdileptonMET (- 10) \<lparr>fPt = - 1, fEta = 0, fPhi = 0, fM = 0\<rparr>
        \<lparr>fPt = 3, fEta = 0, fPhi = 0, fM = 0\<rparr> \<lparr>fPt = 2, fEta = 0, fPhi = pi, fM = 0\<rparr> = Some 4"
  by (simp add: mTdileptonMET_def Let_def p4_add_invalid_lepton calculateMT_def sqrt_16 to_float_4)


section \<open>The bisector discriminant\<close>

lemma SetZ_zero: "SetZ v 0 = zero_z v"
  by (simp add: SetZ_def zero_z_def)

lemma Unit_unit_vector: "Unit v = Some (unit_vector v)"
  by (simp add: Unit_def vec_div_def unit_vector_def Let_def)

lemma pzetamissvis_unfold:
  "pzetamissvis v1 v2 met = Some (pZetaMiss v1 v2 met - alpha_float * pZetaVis v1 v2)"
  by (simp add: pzetamissvis_def Let_def Unit_unit_vector SetZ_zero to_float_085 to_float_17_20
      pZetaMiss_def pZetaVis_def zeta_hat_def transverse_unit_def)







lemma Vect_along_x:
  "Vect \<lparr>fPt = a, fEta = 0, fPhi = 0, fM = 0\<rparr> = \<lparr>fX = a, fY = 0, fZ = 0\<rparr>"
  "Vect \<lparr>fPt = a, fEta = 0, fPhi = pi, fM = 0\<rparr> = \<lparr>fX = - a, fY = 0, fZ = 0\<rparr>"
  by (simp_all add: Vect_def p4_Px_def p4_Py_def p4_Pz_def)

lemma unit_vector_x:
  "0 < a \<Longrightarrow> unit_vector \<lparr>fX = a, fY = 0, fZ = 0\<rparr> = \<lparr>fX = 1, fY = 0, fZ = 0\<rparr>"
  by (simp add: unit_vector_def R_def)

lemma zero_z_x: "zero_z \<lparr>fX = a, fY = 0, fZ = 0\<rparr> = \<lparr>fX = a, fY = 0, fZ = 0\<rparr>"
  by (simp add: zero_z_def)

lemma zeta_hat_along_x:
  "zeta_hat \<lparr>fPt = 1, fEta = 0, fPhi = 0, fM = 0\<rparr> \<lparr>fPt = 3, fEta = 0, fPhi = 0, fM = 0\<rparr>
   = \<lparr>fX = 1, fY = 0, fZ = 0\<rparr>"
  "zeta_hat \<lparr>fPt = - 1, fEta = 0, fPhi = pi, fM = 0\<rparr> \<lparr>fPt = 3, fEta = 0, fPhi = 0, fM = 0\<rparr>
   = \<lparr>fX = 1, fY = 0, fZ = 0\<rparr>"
  by (simp_all add: zeta_hat_def transverse_unit_def Vect_along_x unit_vector_x zero_z_x vec_add_def)




text \<open>
  C3. \<open>pzetamissvis\<close> has no test for an invalid lepton. With a first lepton of
  \<open>pt = -1\<close> it computes the discriminant from the components of that vector, and
  the value follows the missing momentum: \<open>5 - 4 * alpha\<close> for a missing momentum
  of 5 and \<open>6 - 4 * alpha\<close> for one of 6, so it is no fixed default.
\<close>

theorem pzetamissvis_invalid_lepton_computed:
  "fPt \<lparr>fPt = - 1, fEta = 0, fPhi = pi, fM = 0\<rparr> < 0
   \<and> pzetamissvis \<lparr>fPt = - 1, fEta = 0, fPhi = pi, fM = 0\<rparr> \<lparr>fPt = 3, fEta = 0, fPhi = 0, fM = 0\<rparr>
        \<lparr>fPt = 5, fEta = 0, fPhi = 0, fM = 0\<rparr> = Some (3355443 / 2097152)
   \<and> pzetamissvis \<lparr>fPt = - 1, fEta = 0, fPhi = pi, fM = 0\<rparr> \<lparr>fPt = 3, fEta = 0, fPhi = 0, fM = 0\<rparr>
        \<lparr>fPt = 6, fEta = 0, fPhi = 0, fM = 0\<rparr> = Some (5452595 / 2097152)"
  by (simp add: pzetamissvis_unfold pZetaMiss_def pZetaVis_def zeta_hat_along_x
      Vect_along_x zero_z_x vec_add_def Dot_def alpha_float_def)

section \<open>Totality\<close>






end
